theory Spec2Isabelle
  imports Complex_Main "HOL-Library.Sublist"
begin

section \<open>String literals of the two servers\<close>

text \<open>
  The servers' message literals are Korean. A \<^typ>\<open>string\<close> is a list of bytes, so each
  literal is written as its UTF-8 encoding: \<open>msg_no_data\<close> is the literal of the
  item-level "no data" record, \<open>msg_fx_no_data\<close> the one of the exchange-rate operation,
  and the remaining five are the lines returned by \<open>_interpret_fear_greed\<close>, in the
  order of its branches.
\<close>

definition msg_no_data :: string where
  "msg_no_data =
    [CHR 0xEB, CHR 0x8D, CHR 0xB0, CHR 0xEC, CHR 0x9D, CHR 0xB4, CHR 0xED, CHR 0x84,
     CHR 0xB0, CHR 0x20, CHR 0xEC, CHR 0x97, CHR 0x86, CHR 0xEC, CHR 0x9D, CHR 0x8C]"

definition msg_fx_no_data :: string where
  "msg_fx_no_data =
    [CHR 0xED, CHR 0x99, CHR 0x98, CHR 0xEC, CHR 0x9C, CHR 0xA8, CHR 0x20, CHR 0xEB,
     CHR 0x8D, CHR 0xB0, CHR 0xEC, CHR 0x9D, CHR 0xB4, CHR 0xED, CHR 0x84, CHR 0xB0,
     CHR 0x20, CHR 0xEC, CHR 0x97, CHR 0x86, CHR 0xEC, CHR 0x9D, CHR 0x8C]"

definition msg_extreme_fear :: string where
  "msg_extreme_fear =
    [CHR 0xEA, CHR 0xB7, CHR 0xB9, CHR 0xEB, CHR 0x8B, CHR 0xA8, CHR 0xEC, CHR 0xA0,
     CHR 0x81, CHR 0x20, CHR 0xEA, CHR 0xB3, CHR 0xB5, CHR 0xED, CHR 0x8F, CHR 0xAC,
     CHR 0x20, CHR 0x2D, CHR 0x20, CHR 0xEB, CHR 0xA7, CHR 0xA4, CHR 0xEC, CHR 0x88,
     CHR 0x98, CHR 0x20, CHR 0xEA, CHR 0xB8, CHR 0xB0, CHR 0xED, CHR 0x9A, CHR 0x8C,
     CHR 0xEC, CHR 0x9D, CHR 0xBC, CHR 0x20, CHR 0xEC, CHR 0x88, CHR 0x98, CHR 0x20,
     CHR 0xEC, CHR 0x9E, CHR 0x88, CHR 0xEC, CHR 0x9D, CHR 0x8C]"

definition msg_fear :: string where
  "msg_fear =
    [CHR 0xEA, CHR 0xB3, CHR 0xB5, CHR 0xED, CHR 0x8F, CHR 0xAC, CHR 0x20, CHR 0x2D,
     CHR 0x20, CHR 0xEC, CHR 0x8B, CHR 0x9C, CHR 0xEC, CHR 0x9E, CHR 0xA5, CHR 0x20,
     CHR 0xEB, CHR 0xB6, CHR 0x88, CHR 0xEC, CHR 0x95, CHR 0x88, CHR 0xEC, CHR 0xA0,
     CHR 0x95]"

definition msg_neutral :: string where
  "msg_neutral =
    [CHR 0xEC, CHR 0xA4, CHR 0x91, CHR 0xEB, CHR 0xA6, CHR 0xBD, CHR 0x20, CHR 0x2D,
     CHR 0x20, CHR 0xEA, CHR 0xB7, CHR 0xA0, CHR 0xED, CHR 0x98, CHR 0x95, CHR 0x20,
     CHR 0xEC, CHR 0x9E, CHR 0xA1, CHR 0xED, CHR 0x9E, CHR 0x8C, CHR 0x20, CHR 0xEC,
     CHR 0x83, CHR 0x81, CHR 0xED, CHR 0x83, CHR 0x9C]"

definition msg_greed :: string where
  "msg_greed =
    [CHR 0xED, CHR 0x83, CHR 0x90, CHR 0xEC, CHR 0x9A, CHR 0x95, CHR 0x20, CHR 0x2D,
     CHR 0x20, CHR 0xEC, CHR 0xA3, CHR 0xBC, CHR 0xEC, CHR 0x9D, CHR 0x98, CHR 0x20,
     CHR 0xED, CHR 0x95, CHR 0x84, CHR 0xEC, CHR 0x9A, CHR 0x94]"

definition msg_extreme_greed :: string where
  "msg_extreme_greed =
    [CHR 0xEA, CHR 0xB7, CHR 0xB9, CHR 0xEB, CHR 0x8B, CHR 0xA8, CHR 0xEC, CHR 0xA0,
     CHR 0x81, CHR 0x20, CHR 0xED, CHR 0x83, CHR 0x90, CHR 0xEC, CHR 0x9A, CHR 0x95,
     CHR 0x20, CHR 0x2D, CHR 0x20, CHR 0xEA, CHR 0xB3, CHR 0xBC, CHR 0xEC, CHR 0x97,
     CHR 0xB4, CHR 0x20, CHR 0xEC, CHR 0x83, CHR 0x81, CHR 0xED, CHR 0x83, CHR 0x9C,
     CHR 0x2C, CHR 0x20, CHR 0xEC, CHR 0xA1, CHR 0xB0, CHR 0xEC, CHR 0xA0, CHR 0x95,
     CHR 0x20, CHR 0xEA, CHR 0xB0, CHR 0x80, CHR 0xEB, CHR 0x8A, CHR 0xA5, CHR 0xEC,
     CHR 0x84, CHR 0xB1]"

section \<open>Fear and greed classification (qualitative server)\<close>

text \<open>
  \<open>_interpret_fear_greed(score)\<close> is a chain of comparisons against integer literals.
  The parameter is annotated \<open>float\<close> and the caller passes \<open>int(...)\<close>; rational scores
  cover both.
\<close>

definition interpret_fear_greed :: "rat \<Rightarrow> string" where
  "interpret_fear_greed score =
     (if score \<le> 25 then msg_extreme_fear
      else if score \<le> 45 then msg_fear
      else if score \<le> 55 then msg_neutral
      else if score \<le> 75 then msg_greed
      else msg_extreme_greed)"

section \<open>Numbers\<close>

text \<open>
  The closing prices come out of a pandas column of dtype float64, so \<open>.iloc[i]\<close> yields a
  numpy float64 scalar, and the arithmetic on it is IEEE-754: under numpy's default error
  state a division by zero gives an infinity or a NaN (and a warning), it does not raise.
  A number is therefore a finite value or one of the three special values. Finite values
  are exact rationals: binary rounding error, overflow and the sign of zero are left out.
\<close>

datatype fnum = Fin rat | PInf | NInf | NaN

fun is_finite :: "fnum \<Rightarrow> bool" where
  "is_finite (Fin _) = True"
| "is_finite _ = False"

text \<open>\<open>a - b\<close>\<close>

fun fsub :: "fnum \<Rightarrow> fnum \<Rightarrow> fnum" where
  "fsub (Fin a) (Fin b) = Fin (a - b)"
| "fsub NaN _ = NaN"
| "fsub _ NaN = NaN"
| "fsub PInf PInf = NaN"
| "fsub NInf NInf = NaN"
| "fsub PInf _ = PInf"
| "fsub NInf _ = NInf"
| "fsub (Fin _) PInf = NInf"
| "fsub (Fin _) NInf = PInf"

text \<open>\<open>a / b\<close>: a finite value over zero is an infinity of its sign, zero over zero is NaN.\<close>

fun fdiv :: "fnum \<Rightarrow> fnum \<Rightarrow> fnum" where
  "fdiv (Fin a) (Fin b) =
     (if b = 0 then (if a = 0 then NaN else if 0 < a then PInf else NInf)
      else Fin (a / b))"
| "fdiv NaN _ = NaN"
| "fdiv _ NaN = NaN"
| "fdiv (Fin _) _ = Fin 0"
| "fdiv PInf (Fin b) = (if b < 0 then NInf else PInf)"
| "fdiv NInf (Fin b) = (if b < 0 then PInf else NInf)"
| "fdiv _ _ = NaN"

text \<open>\<open>a * 100\<close>\<close>

fun ftimes100 :: "fnum \<Rightarrow> fnum" where
  "ftimes100 (Fin a) = Fin (a * 100)"
| "ftimes100 x = x"

text \<open>
  \<open>round(x, 2)\<close>: to the nearest multiple of 1/100, a tie going to the even one; the
  special values are returned as they are.
\<close>

definition round_half_even :: "rat \<Rightarrow> int" where
  "round_half_even y =
     (let f = \<lfloor>y\<rfloor>; d = y - of_int f
      in if d < 1 / 2 then f else if 1 / 2 < d then f + 1
         else if even f then f else f + 1)"

definition round2 :: "rat \<Rightarrow> rat" where
  "round2 x = of_int (round_half_even (x * 100)) / 100"

fun fround2 :: "fnum \<Rightarrow> fnum" where
  "fround2 (Fin a) = Fin (round2 a)"
| "fround2 x = x"

section \<open>Python values, exceptions, positional indexing\<close>

text \<open>
  A dictionary is an association list in insertion order, so that the keys of a result
  record can be read off it. An exception is represented by its message \<open>str(e)\<close>; for
  the exceptions the interpreter itself raises the message is the name of the class.
\<close>

datatype pyval =
    PNone
  | PBool bool
  | PNum fnum
  | PStr string
  | PList "pyval list"
  | PDict "(string \<times> pyval) list"

type_synonym exn = string

text \<open>\<open>series.iloc[i]\<close>: a negative position counts from the end, out of bounds raises.\<close>

definition iloc :: "'a list \<Rightarrow> int \<Rightarrow> exn + 'a" where
  "iloc xs i =
     (if 0 \<le> i \<and> i < int (length xs) then Inr (xs ! nat i)
      else if i < 0 \<and> - i \<le> int (length xs) then Inr (xs ! (length xs - nat (- i)))
      else Inl ''IndexError'')"

text \<open>\<open>k in v\<close>, \<open>v[k]\<close>, \<open>v.get(k, d)\<close> and \<open>round(v, 2)\<close> on a parsed JSON value.\<close>

fun py_contains :: "string \<Rightarrow> pyval \<Rightarrow> exn + bool" where
  "py_contains k (PDict kvs) = Inr (k \<in> set (map fst kvs))"
| "py_contains k (PList vs) = Inr (PStr k \<in> set vs)"
| "py_contains k (PStr s) = Inr (sublist k s)"
| "py_contains k _ = Inl ''TypeError''"

fun py_getitem :: "pyval \<Rightarrow> string \<Rightarrow> exn + pyval" where
  "py_getitem (PDict kvs) k =
     (case map_of kvs k of None \<Rightarrow> Inl ''KeyError'' | Some v \<Rightarrow> Inr v)"
| "py_getitem _ k = Inl ''TypeError''"

fun py_get :: "pyval \<Rightarrow> string \<Rightarrow> pyval \<Rightarrow> exn + pyval" where
  "py_get (PDict kvs) k d = Inr (case map_of kvs k of None \<Rightarrow> d | Some v \<Rightarrow> v)"
| "py_get _ k d = Inl ''AttributeError''"

fun py_round2 :: "pyval \<Rightarrow> exn + pyval" where
  "py_round2 (PNum x) = Inr (PNum (fround2 x))"
| "py_round2 (PBool b) = Inr (PNum (Fin (if b then 1 else 0)))"
| "py_round2 _ = Inl ''TypeError''"

section \<open>Configuration and upstream providers\<close>

text \<open>
  \<open>portfolio.yaml\<close> maps an asset class to a list of entries with a symbol and a name.
  \<open>pf_get\<close> is \<open>portfolio.get(key, [])\<close>. The price provider is a function from a
  symbol to what \<open>yf.Ticker(symbol).history(period="1mo")\<close> does: it raises, or it returns
  a frame whose \<open>Close\<close> column is the series (empty when the frame is empty).
\<close>

record instrument =
  symbol :: string
  name :: string

type_synonym portfolio = "(string \<times> instrument list) list"

definition pf_get :: "portfolio \<Rightarrow> string \<Rightarrow> instrument list" where
  "pf_get pf k = (case map_of pf k of None \<Rightarrow> [] | Some xs \<Rightarrow> xs)"

type_synonym price_provider = "string \<Rightarrow> exn + fnum list"

section \<open>Quantitative server\<close>

text \<open>
  Each operation reads the configuration, walks the entries of its asset class in order
  and appends one record per entry to \<open>results\<close>. The three price operations are
  written out one by one, as in the source.
\<close>

subsection \<open>get_stock_prices\<close>

text \<open>The body of the \<open>try\<close> for one entry: \<open>Inl\<close> is an exception escaping it.\<close>

definition stock_try :: "price_provider \<Rightarrow> instrument \<Rightarrow> exn + pyval" where
  "stock_try fetch stock =
     (case fetch (symbol stock) of Inl e \<Rightarrow> Inl e | Inr hist \<Rightarrow>
      if hist = [] then
        Inr (PDict [(''symbol'', PStr (symbol stock)), (''error'', PStr msg_no_data)])
      else
      case iloc hist (- 1) of Inl e \<Rightarrow> Inl e | Inr current \<Rightarrow>
      case (if length hist > 1 then iloc hist (- 2) else Inr current) of
        Inl e \<Rightarrow> Inl e | Inr prev_day \<Rightarrow>
      case (if length hist \<ge> 5 then iloc hist (- 5) else iloc hist 0) of
        Inl e \<Rightarrow> Inl e | Inr week_ago \<Rightarrow>
      case iloc hist 0 of Inl e \<Rightarrow> Inl e | Inr month_ago \<Rightarrow>
        Inr (PDict
          [(''symbol'', PStr (symbol stock)),
           (''name'', PStr (name stock)),
           (''price'', PNum (fround2 current)),
           (''change_1d_pct'',
              PNum (fround2 (ftimes100 (fdiv (fsub current prev_day) prev_day)))),
           (''change_1w_pct'',
              PNum (fround2 (ftimes100 (fdiv (fsub current week_ago) week_ago)))),
           (''change_1m_pct'',
              PNum (fround2 (ftimes100 (fdiv (fsub current month_ago) month_ago))))]))"

text \<open>One turn of the loop: the \<open>except\<close> clause turns an exception into an error record.\<close>

definition stock_step :: "price_provider \<Rightarrow> instrument \<Rightarrow> pyval" where
  "stock_step fetch stock =
     (case stock_try fetch stock of
        Inl e \<Rightarrow> PDict [(''symbol'', PStr (symbol stock)), (''error'', PStr e)]
      | Inr r \<Rightarrow> r)"

fun stock_loop :: "price_provider \<Rightarrow> instrument list \<Rightarrow> pyval list \<Rightarrow> pyval list" where
  "stock_loop fetch [] results = results"
| "stock_loop fetch (stock # rest) results =
     stock_loop fetch rest (results @ [stock_step fetch stock])"

definition get_stock_prices :: "portfolio \<Rightarrow> price_provider \<Rightarrow> pyval" where
  "get_stock_prices pf fetch =
     PDict [(''stocks'', PList (stock_loop fetch (pf_get pf ''stocks'') []))]"

subsection \<open>get_bond_prices\<close>

text \<open>The body of the \<open>try\<close> for one entry: \<open>Inl\<close> is an exception escaping it.\<close>

definition bond_try :: "price_provider \<Rightarrow> instrument \<Rightarrow> exn + pyval" where
  "bond_try fetch bond =
     (case fetch (symbol bond) of Inl e \<Rightarrow> Inl e | Inr hist \<Rightarrow>
      if hist = [] then
        Inr (PDict [(''symbol'', PStr (symbol bond)), (''error'', PStr msg_no_data)])
      else
      case iloc hist (- 1) of Inl e \<Rightarrow> Inl e | Inr current \<Rightarrow>
      case (if length hist > 1 then iloc hist (- 2) else Inr current) of
        Inl e \<Rightarrow> Inl e | Inr prev_day \<Rightarrow>
      case (if length hist \<ge> 5 then iloc hist (- 5) else iloc hist 0) of
        Inl e \<Rightarrow> Inl e | Inr week_ago \<Rightarrow>
      case iloc hist 0 of Inl e \<Rightarrow> Inl e | Inr month_ago \<Rightarrow>
        Inr (PDict
          [(''symbol'', PStr (symbol bond)),
           (''name'', PStr (name bond)),
           (''price'', PNum (fround2 current)),
           (''change_1d_pct'',
              PNum (fround2 (ftimes100 (fdiv (fsub current prev_day) prev_day)))),
           (''change_1w_pct'',
              PNum (fround2 (ftimes100 (fdiv (fsub current week_ago) week_ago)))),
           (''change_1m_pct'',
              PNum (fround2 (ftimes100 (fdiv (fsub current month_ago) month_ago))))]))"

text \<open>One turn of the loop: the \<open>except\<close> clause turns an exception into an error record.\<close>

definition bond_step :: "price_provider \<Rightarrow> instrument \<Rightarrow> pyval" where
  "bond_step fetch bond =
     (case bond_try fetch bond of
        Inl e \<Rightarrow> PDict [(''symbol'', PStr (symbol bond)), (''error'', PStr e)]
      | Inr r \<Rightarrow> r)"

fun bond_loop :: "price_provider \<Rightarrow> instrument list \<Rightarrow> pyval list \<Rightarrow> pyval list" where
  "bond_loop fetch [] results = results"
| "bond_loop fetch (bond # rest) results =
     bond_loop fetch rest (results @ [bond_step fetch bond])"

definition get_bond_prices :: "portfolio \<Rightarrow> price_provider \<Rightarrow> pyval" where
  "get_bond_prices pf fetch =
     PDict [(''bonds'', PList (bond_loop fetch (pf_get pf ''bonds'') []))]"

subsection \<open>get_gold_prices\<close>

text \<open>The body of the \<open>try\<close> for one entry: \<open>Inl\<close> is an exception escaping it.\<close>

definition gold_try :: "price_provider \<Rightarrow> instrument \<Rightarrow> exn + pyval" where
  "gold_try fetch gold =
     (case fetch (symbol gold) of Inl e \<Rightarrow> Inl e | Inr hist \<Rightarrow>
      if hist = [] then
        Inr (PDict [(''symbol'', PStr (symbol gold)), (''error'', PStr msg_no_data)])
      else
      case iloc hist (- 1) of Inl e \<Rightarrow> Inl e | Inr current \<Rightarrow>
      case (if length hist > 1 then iloc hist (- 2) else Inr current) of
        Inl e \<Rightarrow> Inl e | Inr prev_day \<Rightarrow>
      case (if length hist \<ge> 5 then iloc hist (- 5) else iloc hist 0) of
        Inl e \<Rightarrow> Inl e | Inr week_ago \<Rightarrow>
      case iloc hist 0 of Inl e \<Rightarrow> Inl e | Inr month_ago \<Rightarrow>
        Inr (PDict
          [(''symbol'', PStr (symbol gold)),
           (''name'', PStr (name gold)),
           (''price'', PNum (fround2 current)),
           (''change_1d_pct'',
              PNum (fround2 (ftimes100 (fdiv (fsub current prev_day) prev_day)))),
           (''change_1w_pct'',
              PNum (fround2 (ftimes100 (fdiv (fsub current week_ago) week_ago)))),
           (''change_1m_pct'',
              PNum (fround2 (ftimes100 (fdiv (fsub current month_ago) month_ago))))]))"

text \<open>One turn of the loop: the \<open>except\<close> clause turns an exception into an error record.\<close>

definition gold_step :: "price_provider \<Rightarrow> instrument \<Rightarrow> pyval" where
  "gold_step fetch gold =
     (case gold_try fetch gold of
        Inl e \<Rightarrow> PDict [(''symbol'', PStr (symbol gold)), (''error'', PStr e)]
      | Inr r \<Rightarrow> r)"

fun gold_loop :: "price_provider \<Rightarrow> instrument list \<Rightarrow> pyval list \<Rightarrow> pyval list" where
  "gold_loop fetch [] results = results"
| "gold_loop fetch (gold # rest) results =
     gold_loop fetch rest (results @ [gold_step fetch gold])"

definition get_gold_prices :: "portfolio \<Rightarrow> price_provider \<Rightarrow> pyval" where
  "get_gold_prices pf fetch =
     PDict [(''gold'', PList (gold_loop fetch (pf_get pf ''gold'') []))]"

subsection \<open>get_crypto_prices\<close>

text \<open>
  One request covers all configured ids. \<open>quote_provider\<close> is what
  \<open>requests.get(...).json()\<close> does for the list of ids: it raises, or it returns the
  parsed payload. The loop sits inside one \<open>try\<close> for the whole batch, so an exception
  in any turn leaves the loop.
\<close>

type_synonym quote_provider = "string list \<Rightarrow> exn + pyval"

definition crypto_step :: "pyval \<Rightarrow> instrument \<Rightarrow> exn + pyval" where
  "crypto_step data crypto =
     (case py_contains (symbol crypto) data of Inl e \<Rightarrow> Inl e | Inr present \<Rightarrow>
      if present then
        case py_getitem data (symbol crypto) of Inl e \<Rightarrow> Inl e | Inr coin_data \<Rightarrow>
        case py_get coin_data ''usd'' (PNum (Fin 0)) of Inl e \<Rightarrow> Inl e | Inr price \<Rightarrow>
        case py_get coin_data ''usd_24h_change'' (PNum (Fin 0)) of
          Inl e \<Rightarrow> Inl e | Inr c24 \<Rightarrow>
        case py_round2 c24 of Inl e \<Rightarrow> Inl e | Inr r24 \<Rightarrow>
        case py_get coin_data ''usd_7d_change'' (PNum (Fin 0)) of
          Inl e \<Rightarrow> Inl e | Inr c7 \<Rightarrow>
        case py_round2 c7 of Inl e \<Rightarrow> Inl e | Inr r7 \<Rightarrow>
          Inr (PDict
            [(''symbol'', PStr (symbol crypto)),
             (''name'', PStr (name crypto)),
             (''price'', price),
             (''change_24h_pct'', r24),
             (''change_7d_pct'', r7)])
      else
        Inr (PDict [(''symbol'', PStr (symbol crypto)), (''error'', PStr msg_no_data)]))"

fun crypto_loop :: "pyval \<Rightarrow> instrument list \<Rightarrow> pyval list \<Rightarrow> exn + pyval list" where
  "crypto_loop data [] results = Inr results"
| "crypto_loop data (crypto # rest) results =
     (case crypto_step data crypto of
        Inl e \<Rightarrow> Inl e
      | Inr r \<Rightarrow> crypto_loop data rest (results @ [r]))"

definition get_crypto_prices :: "portfolio \<Rightarrow> quote_provider \<Rightarrow> pyval" where
  "get_crypto_prices pf request =
     (let crypto_ids = map symbol (pf_get pf ''crypto'')
      in if crypto_ids = [] then PDict [(''crypto'', PList [])]
         else
           case (case request crypto_ids of
                   Inl e \<Rightarrow> Inl e
                 | Inr data \<Rightarrow> crypto_loop data (pf_get pf ''crypto'') [])
           of Inl e \<Rightarrow> PDict [(''crypto'', PList []), (''error'', PStr e)]
            | Inr results \<Rightarrow> PDict [(''crypto'', PList results)])"

section \<open>Qualitative server: get_exchange_rate\<close>

text \<open>
  The argument is what \<open>yf.Ticker("USDKRW=X").history(period="1mo")\<close> does. The whole
  body is one \<open>try\<close>; its \<open>except\<close> returns a record with the single key \<open>error\<close>.
\<close>

definition exchange_rate_try :: "exn + fnum list \<Rightarrow> exn + pyval" where
  "exchange_rate_try upstream =
     (case upstream of Inl e \<Rightarrow> Inl e | Inr hist \<Rightarrow>
      if hist = [] then Inr (PDict [(''error'', PStr msg_fx_no_data)])
      else
      case iloc hist (- 1) of Inl e \<Rightarrow> Inl e | Inr current \<Rightarrow>
      case (if length hist > 1 then iloc hist (- 2) else Inr current) of
        Inl e \<Rightarrow> Inl e | Inr prev_day \<Rightarrow>
      case (if length hist \<ge> 5 then iloc hist (- 5) else iloc hist 0) of
        Inl e \<Rightarrow> Inl e | Inr week_ago \<Rightarrow>
      case iloc hist 0 of Inl e \<Rightarrow> Inl e | Inr month_ago \<Rightarrow>
        Inr (PDict
          [(''pair'', PStr ''USD/KRW''),
           (''rate'', PNum (fround2 current)),
           (''change_1d_pct'',
              PNum (fround2 (ftimes100 (fdiv (fsub current prev_day) prev_day)))),
           (''change_1w_pct'',
              PNum (fround2 (ftimes100 (fdiv (fsub current week_ago) week_ago)))),
           (''change_1m_pct'',
              PNum (fround2 (ftimes100 (fdiv (fsub current month_ago) month_ago))))]))"

definition get_exchange_rate :: "exn + fnum list \<Rightarrow> pyval" where
  "get_exchange_rate upstream =
     (case exchange_rate_try upstream of
        Inl e \<Rightarrow> PDict [(''error'', PStr e)]
      | Inr r \<Rightarrow> r)"

section \<open>Reading results\<close>

text \<open>The keys of a record in order, a field of a record, and the list under a key.\<close>

fun keys_of :: "pyval \<Rightarrow> string list" where
  "keys_of (PDict kvs) = map fst kvs"
| "keys_of _ = []"

fun field :: "pyval \<Rightarrow> string \<Rightarrow> pyval option" where
  "field (PDict kvs) k = map_of kvs k"
| "field _ k = None"

fun list_under :: "pyval \<Rightarrow> string \<Rightarrow> pyval list" where
  "list_under (PDict kvs) k = (case map_of kvs k of Some (PList vs) \<Rightarrow> vs | _ \<Rightarrow> [])"
| "list_under _ k = []"

definition populated_keys :: "string list" where
  "populated_keys =
     [''symbol'', ''name'', ''price'', ''change_1d_pct'', ''change_1w_pct'', ''change_1m_pct'']"

definition error_keys :: "string list" where
  "error_keys = [''symbol'', ''error'']"

definition crypto_populated_keys :: "string list" where
  "crypto_populated_keys =
     [''symbol'', ''name'', ''price'', ''change_24h_pct'', ''change_7d_pct'']"

section \<open>Reference positions on plain list indices\<close>

text \<open>
  The percentage change of a current value against a reference, and the three reference
  positions of a non-empty series, written with ordinary list indexing. They are used to
  state what the operations compute.
\<close>

definition pct_change :: "fnum \<Rightarrow> fnum \<Rightarrow> fnum" where
  "pct_change current reference =
     fround2 (ftimes100 (fdiv (fsub current reference) reference))"

definition day_ref :: "'a list \<Rightarrow> 'a" where
  "day_ref hist = (if 1 < length hist then hist ! (length hist - 2) else last hist)"

definition week_ref :: "'a list \<Rightarrow> 'a" where
  "week_ref hist = (if 5 \<le> length hist then hist ! (length hist - 5) else hd hist)"

definition month_ref :: "'a list \<Rightarrow> 'a" where
  "month_ref hist = hd hist"

definition metrics :: "fnum list \<Rightarrow> (string \<times> pyval) list" where
  "metrics hist =
     [(''change_1d_pct'', PNum (pct_change (last hist) (day_ref hist))),
      (''change_1w_pct'', PNum (pct_change (last hist) (week_ref hist))),
      (''change_1m_pct'', PNum (pct_change (last hist) (month_ref hist)))]"

text \<open>
  A payload entry the crypto loop can turn into a record: an object whose two change
  values, where present, are numbers (\<open>round\<close> accepts a number or a boolean).
\<close>

fun is_number :: "pyval \<Rightarrow> bool" where
  "is_number (PNum _) = True"
| "is_number (PBool _) = True"
| "is_number _ = False"

fun entry_ok :: "pyval \<Rightarrow> bool" where
  "entry_ok (PDict fs) =
     (is_number (case map_of fs ''usd_24h_change'' of None \<Rightarrow> PNum (Fin 0) | Some v \<Rightarrow> v) \<and>
      is_number (case map_of fs ''usd_7d_change'' of None \<Rightarrow> PNum (Fin 0) | Some v \<Rightarrow> v))"
| "entry_ok _ = False"

definition payload_ok :: "(string \<times> pyval) list \<Rightarrow> instrument list \<Rightarrow> bool" where
  "payload_ok kvs config =
     list_all (\<lambda>c. case map_of kvs (symbol c) of None \<Rightarrow> True | Some v \<Rightarrow> entry_ok v) config"

section \<open>Example inputs\<close>

definition example_entry :: instrument where
  "example_entry = \<lparr>symbol = ''AAA'', name = ''Alpha''\<rparr>"

definition example_portfolio :: portfolio where
  "example_portfolio =
     [(''stocks'', [example_entry]), (''bonds'', [example_entry]),
      (''gold'', [example_entry]), (''crypto'', [example_entry])]"

definition series_6 :: "fnum list" where
  "series_6 = [Fin 90, Fin 91, Fin 92, Fin 93, Fin 94, Fin 95]"

definition series_7 :: "fnum list" where
  "series_7 = [Fin 10, Fin 20, Fin 30, Fin 40, Fin 50, Fin 60, Fin 70]"

section \<open>Properties\<close>

subsection \<open>Positional indexing\<close>

lemma iloc_last: "xs \<noteq> [] \<Longrightarrow> iloc xs (- 1) = Inr (last xs)"
  by (cases xs rule: rev_cases) (simp_all add: iloc_def nth_append)

lemma iloc_neg:
  "0 < k \<Longrightarrow> k \<le> length xs \<Longrightarrow> iloc xs (- int k) = Inr (xs ! (length xs - k))"
  by (simp add: iloc_def)

lemma iloc_first: "xs \<noteq> [] \<Longrightarrow> iloc xs 0 = Inr (hd xs)"
  by (cases xs) (simp_all add: iloc_def)

subsection \<open>One loop turn of each price operation\<close>

lemma stock_loop_map: "stock_loop fetch xs acc = acc @ map (stock_step fetch) xs"
  by (induction xs arbitrary: acc) simp_all

lemma get_stock_prices_list:
  "list_under (get_stock_prices pf fetch) ''stocks'' = map (stock_step fetch) (pf_get pf ''stocks'')"
  by (simp add: get_stock_prices_def stock_loop_map)

lemma stock_try_series:
  assumes "fetch (symbol i) = Inr hist" and "hist \<noteq> []"
  shows "stock_try fetch i =
    Inr (PDict ([(''symbol'', PStr (symbol i)), (''name'', PStr (name i)),
                 (''price'', PNum (fround2 (last hist)))] @ metrics hist))"
proof -
  have l: "iloc hist (- 1) = Inr (last hist)" using assms(2) by (rule iloc_last)
  have f: "iloc hist 0 = Inr (hd hist)" using assms(2) by (rule iloc_first)
  have d: "1 < length hist \<Longrightarrow> iloc hist (- 2) = Inr (hist ! (length hist - 2))"
    using iloc_neg [of 2 hist] by simp
  have w: "5 \<le> length hist \<Longrightarrow> iloc hist (- 5) = Inr (hist ! (length hist - 5))"
    using iloc_neg [of 5 hist] by simp
  show ?thesis
    using assms l f d w
    by (simp add: stock_try_def metrics_def pct_change_def day_ref_def week_ref_def
        month_ref_def)
qed

lemma stock_step_series:
  assumes "fetch (symbol i) = Inr hist" and "hist \<noteq> []"
  shows "stock_step fetch i =
    PDict ([(''symbol'', PStr (symbol i)), (''name'', PStr (name i)),
            (''price'', PNum (fround2 (last hist)))] @ metrics hist)"
  using stock_try_series [of fetch i hist] assms by (simp add: stock_step_def)

lemma stock_step_empty:
  "fetch (symbol i) = Inr [] \<Longrightarrow>
   stock_step fetch i = PDict [(''symbol'', PStr (symbol i)), (''error'', PStr msg_no_data)]"
  by (simp add: stock_step_def stock_try_def)

lemma stock_step_raise:
  "fetch (symbol i) = Inl e \<Longrightarrow>
   stock_step fetch i = PDict [(''symbol'', PStr (symbol i)), (''error'', PStr e)]"
  by (simp add: stock_step_def stock_try_def)

lemma bond_loop_map: "bond_loop fetch xs acc = acc @ map (bond_step fetch) xs"
  by (induction xs arbitrary: acc) simp_all

lemma get_bond_prices_list:
  "list_under (get_bond_prices pf fetch) ''bonds'' = map (bond_step fetch) (pf_get pf ''bonds'')"
  by (simp add: get_bond_prices_def bond_loop_map)

lemma bond_try_series:
  assumes "fetch (symbol i) = Inr hist" and "hist \<noteq> []"
  shows "bond_try fetch i =
    Inr (PDict ([(''symbol'', PStr (symbol i)), (''name'', PStr (name i)),
                 (''price'', PNum (fround2 (last hist)))] @ metrics hist))"
proof -
  have l: "iloc hist (- 1) = Inr (last hist)" using assms(2) by (rule iloc_last)
  have f: "iloc hist 0 = Inr (hd hist)" using assms(2) by (rule iloc_first)
  have d: "1 < length hist \<Longrightarrow> iloc hist (- 2) = Inr (hist ! (length hist - 2))"
    using iloc_neg [of 2 hist] by simp
  have w: "5 \<le> length hist \<Longrightarrow> iloc hist (- 5) = Inr (hist ! (length hist - 5))"
    using iloc_neg [of 5 hist] by simp
  show ?thesis
    using assms l f d w
    by (simp add: bond_try_def metrics_def pct_change_def day_ref_def week_ref_def
        month_ref_def)
qed

lemma bond_step_series:
  assumes "fetch (symbol i) = Inr hist" and "hist \<noteq> []"
  shows "bond_step fetch i =
    PDict ([(''symbol'', PStr (symbol i)), (''name'', PStr (name i)),
            (''price'', PNum (fround2 (last hist)))] @ metrics hist)"
  using bond_try_series [of fetch i hist] assms by (simp add: bond_step_def)

lemma bond_step_empty:
  "fetch (symbol i) = Inr [] \<Longrightarrow>
   bond_step fetch i = PDict [(''symbol'', PStr (symbol i)), (''error'', PStr msg_no_data)]"
  by (simp add: bond_step_def bond_try_def)

lemma bond_step_raise:
  "fetch (symbol i) = Inl e \<Longrightarrow>
   bond_step fetch i = PDict [(''symbol'', PStr (symbol i)), (''error'', PStr e)]"
  by (simp add: bond_step_def bond_try_def)

lemma gold_loop_map: "gold_loop fetch xs acc = acc @ map (gold_step fetch) xs"
  by (induction xs arbitrary: acc) simp_all

lemma get_gold_prices_list:
  "list_under (get_gold_prices pf fetch) ''gold'' = map (gold_step fetch) (pf_get pf ''gold'')"
  by (simp add: get_gold_prices_def gold_loop_map)

lemma gold_try_series:
  assumes "fetch (symbol i) = Inr hist" and "hist \<noteq> []"
  shows "gold_try fetch i =
    Inr (PDict ([(''symbol'', PStr (symbol i)), (''name'', PStr (name i)),
                 (''price'', PNum (fround2 (last hist)))] @ metrics hist))"
proof -
  have l: "iloc hist (- 1) = Inr (last hist)" using assms(2) by (rule iloc_last)
  have f: "iloc hist 0 = Inr (hd hist)" using assms(2) by (rule iloc_first)
  have d: "1 < length hist \<Longrightarrow> iloc hist (- 2) = Inr (hist ! (length hist - 2))"
    using iloc_neg [of 2 hist] by simp
  have w: "5 \<le> length hist \<Longrightarrow> iloc hist (- 5) = Inr (hist ! (length hist - 5))"
    using iloc_neg [of 5 hist] by simp
  show ?thesis
    using assms l f d w
    by (simp add: gold_try_def metrics_def pct_change_def day_ref_def week_ref_def
        month_ref_def)
qed

lemma gold_step_series:
  assumes "fetch (symbol i) = Inr hist" and "hist \<noteq> []"
  shows "gold_step fetch i =
    PDict ([(''symbol'', PStr (symbol i)), (''name'', PStr (name i)),
            (''price'', PNum (fround2 (last hist)))] @ metrics hist)"
  using gold_try_series [of fetch i hist] assms by (simp add: gold_step_def)

lemma gold_step_empty:
  "fetch (symbol i) = Inr [] \<Longrightarrow>
   gold_step fetch i = PDict [(''symbol'', PStr (symbol i)), (''error'', PStr msg_no_data)]"
  by (simp add: gold_step_def gold_try_def)

lemma gold_step_raise:
  "fetch (symbol i) = Inl e \<Longrightarrow>
   gold_step fetch i = PDict [(''symbol'', PStr (symbol i)), (''error'', PStr e)]"
  by (simp add: gold_step_def gold_try_def)

lemma exchange_rate_series:
  assumes "hist \<noteq> []"
  shows "get_exchange_rate (Inr hist) =
    PDict ([(''pair'', PStr ''USD/KRW''), (''rate'', PNum (fround2 (last hist)))] @ metrics hist)"
proof -
  have l: "iloc hist (- 1) = Inr (last hist)" using assms by (rule iloc_last)
  have f: "iloc hist 0 = Inr (hd hist)" using assms by (rule iloc_first)
  have d: "1 < length hist \<Longrightarrow> iloc hist (- 2) = Inr (hist ! (length hist - 2))"
    using iloc_neg [of 2 hist] by simp
  have w: "5 \<le> length hist \<Longrightarrow> iloc hist (- 5) = Inr (hist ! (length hist - 5))"
    using iloc_neg [of 5 hist] by simp
  show ?thesis
    using assms l f d w
    by (simp add: get_exchange_rate_def exchange_rate_try_def metrics_def pct_change_def
        day_ref_def week_ref_def month_ref_def)
qed

lemma example_stocks: "pf_get example_portfolio ''stocks'' = [example_entry]"
  by (simp add: example_portfolio_def pf_get_def)

lemma example_bonds: "pf_get example_portfolio ''bonds'' = [example_entry]"
  by (simp add: example_portfolio_def pf_get_def)

lemma example_gold: "pf_get example_portfolio ''gold'' = [example_entry]"
  by (simp add: example_portfolio_def pf_get_def)

lemma example_crypto: "pf_get example_portfolio ''crypto'' = [example_entry]"
  by (simp add: example_portfolio_def pf_get_def)

lemma week_ref_series_7: "week_ref series_7 = Fin 30"
  by (simp add: week_ref_def series_7_def)

lemma week_ref_series_6: "week_ref series_6 = Fin 91"
  by (simp add: week_ref_def series_6_def)

lemma pct_70_30: "pct_change (Fin 70) (Fin 30) = Fin (13333 / 100)"
  by code_simp

lemma pct_70_20: "pct_change (Fin 70) (Fin 20) = Fin 250"
  by code_simp

lemma pct_95_91: "pct_change (Fin 95) (Fin 91) = Fin (22 / 5)"
  by code_simp

lemma pct_95_90: "pct_change (Fin 95) (Fin 90) = Fin (139 / 25)"
  by code_simp

subsection \<open>Classification, reference positions and zero references\<close>

lemmas msg_defs =
  msg_no_data_def msg_fx_no_data_def msg_extreme_fear_def msg_fear_def
  msg_neutral_def msg_greed_def msg_extreme_greed_def

lemma bucket_lines_distinct:
  "distinct [msg_extreme_fear, msg_fear, msg_neutral, msg_greed, msg_extreme_greed]"
  by (simp add: msg_defs)

text \<open>
  Claim C8. On every score between 0 and 100 the classification is defined and picks
  exactly one of five pairwise different lines: extreme fear up to 25, fear above 25 up
  to 45, neutral above 45 up to 55, greed above 55 up to 75, extreme greed above 75.
  Each boundary value 25, 45, 55, 75 falls in the lower bucket.
\<close>

theorem fear_greed_buckets:
  "distinct [msg_extreme_fear, msg_fear, msg_neutral, msg_greed, msg_extreme_greed] \<and>
   (0 \<le> s \<and> s \<le> 100 \<longrightarrow>
      (s \<le> 25 \<longrightarrow> interpret_fear_greed s = msg_extreme_fear) \<and>
      (25 < s \<and> s \<le> 45 \<longrightarrow> interpret_fear_greed s = msg_fear) \<and>
      (45 < s \<and> s \<le> 55 \<longrightarrow> interpret_fear_greed s = msg_neutral) \<and>
      (55 < s \<and> s \<le> 75 \<longrightarrow> interpret_fear_greed s = msg_greed) \<and>
      (75 < s \<longrightarrow> interpret_fear_greed s = msg_extreme_greed)) \<and>
   interpret_fear_greed 25 = msg_extreme_fear \<and>
   interpret_fear_greed 45 = msg_fear \<and>
   interpret_fear_greed 55 = msg_neutral \<and>
   interpret_fear_greed 75 = msg_greed"
  using bucket_lines_distinct by (simp add: interpret_fear_greed_def)

theorem fear_greed_buckets_witness:
  "(0::rat) \<le> 26 \<and> (26::rat) \<le> 100 \<and> (25::rat) < 26 \<and> (26::rat) \<le> 45 \<and>
   interpret_fear_greed 26 = msg_fear \<and> msg_fear \<noteq> msg_extreme_fear"
  using fear_greed_buckets [of 26] by auto

text \<open>
  Claim C10. Given the same configured list and the same price provider, the stock, bond
  and gold operations produce the same list of per-instrument records; each wraps its
  list under its own single key.
\<close>

theorem price_operations_agree:
  assumes "pf_get pf ''stocks'' = config" and "pf_get pf' ''bonds'' = config"
    and "pf_get pf'' ''gold'' = config"
  shows "list_under (get_stock_prices pf fetch) ''stocks'' =
           list_under (get_bond_prices pf' fetch) ''bonds'' \<and>
         list_under (get_bond_prices pf' fetch) ''bonds'' =
           list_under (get_gold_prices pf'' fetch) ''gold'' \<and>
         keys_of (get_stock_prices pf fetch) = [''stocks''] \<and>
         keys_of (get_bond_prices pf' fetch) = [''bonds''] \<and>
         keys_of (get_gold_prices pf'' fetch) = [''gold'']"
proof -
  have sb: "stock_step fetch = bond_step fetch"
    by (rule ext) (simp add: stock_step_def bond_step_def stock_try_def bond_try_def)
  have bg: "bond_step fetch = gold_step fetch"
    by (rule ext) (simp add: bond_step_def gold_step_def bond_try_def gold_try_def)
  show ?thesis
    using assms sb bg
    by (simp add: get_stock_prices_list get_bond_prices_list get_gold_prices_list)
      (simp add: get_stock_prices_def get_bond_prices_def get_gold_prices_def)
qed

theorem price_operations_agree_witness:
  "pf_get example_portfolio ''stocks'' = [example_entry] \<and>
   pf_get example_portfolio ''bonds'' = [example_entry] \<and>
   pf_get example_portfolio ''gold'' = [example_entry] \<and>
   list_under (get_stock_prices example_portfolio (\<lambda>_. Inr series_6)) ''stocks'' =
     list_under (get_bond_prices example_portfolio (\<lambda>_. Inr series_6)) ''bonds'' \<and>
   list_under (get_bond_prices example_portfolio (\<lambda>_. Inr series_6)) ''bonds'' =
     list_under (get_gold_prices example_portfolio (\<lambda>_. Inr series_6)) ''gold''"
  using price_operations_agree [of example_portfolio "[example_entry]" example_portfolio
      example_portfolio "\<lambda>_. Inr series_6"] example_stocks example_bonds example_gold
  by blast

text \<open>
  Claim C1, amended. For a non-empty fetched series the 1-week change of the three price
  operations and of the exchange-rate operation is computed against \<open>week_ref\<close>: with at
  least 5 elements the fifth element counted from the end (index \<open>length - 5\<close>, four
  positions before the last one), with fewer than 5 the first element.
\<close>

theorem week_reference_is_fifth_from_end:
  assumes "hist \<noteq> []" and "k < length (pf_get pf key)"
    and "fetch (symbol (pf_get pf key ! k)) = Inr hist"
  shows "(key = ''stocks'' \<longrightarrow>
            field (list_under (get_stock_prices pf fetch) key ! k) ''change_1w_pct'' =
              Some (PNum (pct_change (last hist) (week_ref hist)))) \<and>
         (key = ''bonds'' \<longrightarrow>
            field (list_under (get_bond_prices pf fetch) key ! k) ''change_1w_pct'' =
              Some (PNum (pct_change (last hist) (week_ref hist)))) \<and>
         (key = ''gold'' \<longrightarrow>
            field (list_under (get_gold_prices pf fetch) key ! k) ''change_1w_pct'' =
              Some (PNum (pct_change (last hist) (week_ref hist)))) \<and>
         field (get_exchange_rate (Inr hist)) ''change_1w_pct'' =
           Some (PNum (pct_change (last hist) (week_ref hist))) \<and>
         (5 \<le> length hist \<longrightarrow>
            week_ref hist = hist ! (length hist - 5) \<and> week_ref hist = rev hist ! 4) \<and>
         (length hist < 5 \<longrightarrow> week_ref hist = hist ! 0)"
proof -
  have s: "key = ''stocks'' \<Longrightarrow>
      field (list_under (get_stock_prices pf fetch) key ! k) ''change_1w_pct'' =
        Some (PNum (pct_change (last hist) (week_ref hist)))"
    using assms stock_step_series [of fetch "pf_get pf key ! k" hist]
    by (simp add: get_stock_prices_list metrics_def)
  have b: "key = ''bonds'' \<Longrightarrow>
      field (list_under (get_bond_prices pf fetch) key ! k) ''change_1w_pct'' =
        Some (PNum (pct_change (last hist) (week_ref hist)))"
    using assms bond_step_series [of fetch "pf_get pf key ! k" hist]
    by (simp add: get_bond_prices_list metrics_def)
  have g: "key = ''gold'' \<Longrightarrow>
      field (list_under (get_gold_prices pf fetch) key ! k) ''change_1w_pct'' =
        Some (PNum (pct_change (last hist) (week_ref hist)))"
    using assms gold_step_series [of fetch "pf_get pf key ! k" hist]
    by (simp add: get_gold_prices_list metrics_def)
  have x: "field (get_exchange_rate (Inr hist)) ''change_1w_pct'' =
      Some (PNum (pct_change (last hist) (week_ref hist)))"
    using assms(1) by (simp add: exchange_rate_series metrics_def)
  have w5: "5 \<le> length hist \<Longrightarrow>
      week_ref hist = hist ! (length hist - 5) \<and> week_ref hist = rev hist ! 4"
    by (simp add: week_ref_def rev_nth)
  have w0: "length hist < 5 \<Longrightarrow> week_ref hist = hist ! 0"
    using assms(1) by (simp add: week_ref_def hd_conv_nth)
  show ?thesis using s b g x w5 w0 by blast
qed

theorem week_reference_is_fifth_from_end_witness:
  "series_7 \<noteq> [] \<and> 0 < length (pf_get example_portfolio ''stocks'') \<and>
   5 \<le> length series_7 \<and>
   field (list_under (get_stock_prices example_portfolio (\<lambda>_. Inr series_7)) ''stocks'' ! 0)
     ''change_1w_pct'' = Some (PNum (Fin (13333 / 100))) \<and>
   field (get_exchange_rate (Inr series_7)) ''change_1w_pct'' = Some (PNum (Fin (13333 / 100))) \<and>
   week_ref series_7 = rev series_7 ! 4"
  using week_reference_is_fifth_from_end [of series_7 0 example_portfolio "''stocks''"
      "\<lambda>_. Inr series_7"] pct_70_30 week_ref_series_7 example_stocks
  by (simp add: series_7_def)

text \<open>
  Claim C1 as stated fails: on a series of 7 elements the element 5 positions before the
  last one is the second (20), and the 1-week change is computed against the third (30).
\<close>

theorem week_reference_counterexample:
  "series_7 ! (length series_7 - 1 - 5) = Fin 20 \<and>
   field (list_under (get_stock_prices example_portfolio (\<lambda>_. Inr series_7)) ''stocks'' ! 0)
     ''change_1w_pct'' \<noteq> Some (PNum (pct_change (last series_7) (Fin 20))) \<and>
   field (get_exchange_rate (Inr series_7)) ''change_1w_pct'' \<noteq>
     Some (PNum (pct_change (last series_7) (Fin 20)))"
proof -
  have ne: "series_7 \<noteq> []" by (simp add: series_7_def)
  have l: "last series_7 = Fin 70" by (simp add: series_7_def)
  have "stock_step (\<lambda>_. Inr series_7) example_entry =
      PDict ([(''symbol'', PStr (symbol example_entry)), (''name'', PStr (name example_entry)),
              (''price'', PNum (fround2 (last series_7)))] @ metrics series_7)"
    using ne by (simp add: stock_step_series)
  then have s: "field (stock_step (\<lambda>_. Inr series_7) example_entry) ''change_1w_pct'' =
      Some (PNum (Fin (13333 / 100)))"
    by (simp add: metrics_def l week_ref_series_7 pct_70_30)
  have x: "field (get_exchange_rate (Inr series_7)) ''change_1w_pct'' =
      Some (PNum (Fin (13333 / 100)))"
    using ne by (simp add: exchange_rate_series metrics_def l week_ref_series_7 pct_70_30)
  have i: "series_7 ! (length series_7 - 1 - 5) = Fin 20" by (simp add: series_7_def)
  show ?thesis
    using s x i by (simp add: get_stock_prices_list example_stocks l pct_70_20)
qed

text \<open>
  Claim C5, amended. For the series 90, 91, 92, 93, 94, 95 the 1-week change is computed
  against the element at index 1 (value 91): it is \<open>round((95 - 91) / 91 * 100, 2)\<close>,
  which is 4.4.
\<close>

theorem series_6_week_change:
  "field (list_under (get_stock_prices example_portfolio (\<lambda>_. Inr series_6)) ''stocks'' ! 0)
     ''change_1w_pct'' = Some (PNum (Fin (round2 ((95 - 91) / 91 * 100)))) \<and>
   round2 ((95 - 91) / 91 * 100) = 22 / 5 \<and> series_6 ! 1 = Fin 91"
proof -
  have ne: "series_6 \<noteq> []" by (simp add: series_6_def)
  have l: "last series_6 = Fin 95" by (simp add: series_6_def)
  have r: "round2 ((95 - 91) / 91 * 100) = 22 / 5" by code_simp
  have "stock_step (\<lambda>_. Inr series_6) example_entry =
      PDict ([(''symbol'', PStr (symbol example_entry)), (''name'', PStr (name example_entry)),
              (''price'', PNum (fround2 (last series_6)))] @ metrics series_6)"
    using ne by (simp add: stock_step_series)
  then have "field (stock_step (\<lambda>_. Inr series_6) example_entry) ''change_1w_pct'' =
      Some (PNum (Fin (22 / 5)))"
    by (simp add: metrics_def l week_ref_series_6 pct_95_91)
  then show ?thesis
    using r by (simp add: get_stock_prices_list example_stocks series_6_def)
qed

text \<open>
  Claim C5 as stated fails: the 1-week change of that series is not
  \<open>round((95 - 90) / 90 * 100, 2)\<close>, which is 5.56.
\<close>

theorem series_6_week_change_counterexample:
  "field (list_under (get_stock_prices example_portfolio (\<lambda>_. Inr series_6)) ''stocks'' ! 0)
     ''change_1w_pct'' \<noteq> Some (PNum (Fin (round2 ((95 - 90) / 90 * 100))))"
proof -
  have ne: "series_6 \<noteq> []" by (simp add: series_6_def)
  have l: "last series_6 = Fin 95" by (simp add: series_6_def)
  have r: "round2 ((95 - 90) / 90 * 100) = 139 / 25" by code_simp
  have "stock_step (\<lambda>_. Inr series_6) example_entry =
      PDict ([(''symbol'', PStr (symbol example_entry)), (''name'', PStr (name example_entry)),
              (''price'', PNum (fround2 (last series_6)))] @ metrics series_6)"
    using ne by (simp add: stock_step_series)
  then have "field (stock_step (\<lambda>_. Inr series_6) example_entry) ''change_1w_pct'' =
      Some (PNum (Fin (22 / 5)))"
    by (simp add: metrics_def l week_ref_series_6 pct_95_91)
  then show ?thesis
    using r by (simp add: get_stock_prices_list example_stocks)
qed

lemma pct_change_self: "v \<noteq> 0 \<Longrightarrow> pct_change (Fin v) (Fin v) = Fin 0"
  by (simp add: pct_change_def round2_def round_half_even_def)

lemma pct_change_zero_reference: "is_finite c \<Longrightarrow> \<not> is_finite (pct_change c (Fin 0))"
  by (cases c) (simp_all add: pct_change_def)

lemma keys_with_metrics:
  "map fst ([(''symbol'', a), (''name'', b), (''price'', c)] @ metrics hist) = populated_keys"
  by (simp add: metrics_def populated_keys_def)

text \<open>
  Claim C6, amended. For every non-empty price series the stock operation produces a full
  metrics record (symbol, name, price and the three change fields), never an error record;
  for a series of length 1 whose value is finite and not zero all three changes are 0.
\<close>

theorem nonempty_series_gives_full_record:
  assumes "hist \<noteq> []" and "k < length (pf_get pf ''stocks'')"
    and "fetch (symbol (pf_get pf ''stocks'' ! k)) = Inr hist"
  shows "keys_of (list_under (get_stock_prices pf fetch) ''stocks'' ! k) = populated_keys \<and>
         field (list_under (get_stock_prices pf fetch) ''stocks'' ! k) ''price'' =
           Some (PNum (fround2 (last hist))) \<and>
         (\<forall>v. hist = [Fin v] \<and> v \<noteq> 0 \<longrightarrow>
            field (list_under (get_stock_prices pf fetch) ''stocks'' ! k) ''change_1d_pct'' =
              Some (PNum (Fin 0)) \<and>
            field (list_under (get_stock_prices pf fetch) ''stocks'' ! k) ''change_1w_pct'' =
              Some (PNum (Fin 0)) \<and>
            field (list_under (get_stock_prices pf fetch) ''stocks'' ! k) ''change_1m_pct'' =
              Some (PNum (Fin 0)))"
proof -
  let ?r = "list_under (get_stock_prices pf fetch) ''stocks'' ! k"
  have r: "?r = PDict ([(''symbol'', PStr (symbol (pf_get pf ''stocks'' ! k))),
                        (''name'', PStr (name (pf_get pf ''stocks'' ! k))),
                        (''price'', PNum (fround2 (last hist)))] @ metrics hist)"
    using assms stock_step_series [of fetch "pf_get pf ''stocks'' ! k" hist]
    by (simp add: get_stock_prices_list)
  have ks: "keys_of ?r = populated_keys"
    unfolding r by (simp only: keys_of.simps keys_with_metrics)
  have p: "field ?r ''price'' = Some (PNum (fround2 (last hist)))"
    unfolding r by simp
  have one: "field ?r ''change_1d_pct'' = Some (PNum (Fin 0)) \<and>
             field ?r ''change_1w_pct'' = Some (PNum (Fin 0)) \<and>
             field ?r ''change_1m_pct'' = Some (PNum (Fin 0))"
    if "hist = [Fin v] \<and> v \<noteq> 0" for v
    unfolding r using that
    by (simp add: metrics_def day_ref_def week_ref_def month_ref_def pct_change_self)
  show ?thesis using ks p one by blast
qed

theorem nonempty_series_gives_full_record_witness:
  "[Fin 7] \<noteq> [] \<and> 0 < length (pf_get example_portfolio ''stocks'') \<and>
   keys_of (list_under (get_stock_prices example_portfolio (\<lambda>_. Inr [Fin 7])) ''stocks'' ! 0) =
     populated_keys \<and>
   field (list_under (get_stock_prices example_portfolio (\<lambda>_. Inr [Fin 7])) ''stocks'' ! 0)
     ''change_1w_pct'' = Some (PNum (Fin 0))"
  using nonempty_series_gives_full_record [of "[Fin 7]" 0 example_portfolio "\<lambda>_. Inr [Fin 7]"]
    example_stocks
  by simp

text \<open>
  Claim C6 as stated fails on the one-element series whose value is 0: the record is
  produced, and its changes are NaN, not 0.
\<close>

theorem single_zero_counterexample:
  "field (list_under (get_stock_prices example_portfolio (\<lambda>_. Inr [Fin 0])) ''stocks'' ! 0)
     ''change_1d_pct'' = Some (PNum NaN) \<and>
   field (list_under (get_stock_prices example_portfolio (\<lambda>_. Inr [Fin 0])) ''stocks'' ! 0)
     ''change_1d_pct'' \<noteq> Some (PNum (Fin 0))"
  by (simp add: get_stock_prices_list example_stocks stock_step_series metrics_def
      day_ref_def pct_change_def)

text \<open>
  Claim C4, amended. When a non-empty series of finite values has the reference of some
  horizon equal to 0, the stock operation still returns a populated record for that
  instrument and the exchange-rate operation still returns its rate record; the change of
  that horizon is not a finite number (an infinity, or NaN when the current value is 0
  as well). No error record is produced.
\<close>

theorem zero_reference_gives_nonfinite_change:
  assumes "hist \<noteq> []" and "list_all is_finite hist"
    and "k < length (pf_get pf ''stocks'')"
    and "fetch (symbol (pf_get pf ''stocks'' ! k)) = Inr hist"
  shows "keys_of (list_under (get_stock_prices pf fetch) ''stocks'' ! k) = populated_keys \<and>
         keys_of (get_exchange_rate (Inr hist)) =
           [''pair'', ''rate'', ''change_1d_pct'', ''change_1w_pct'', ''change_1m_pct''] \<and>
         \<not> is_finite (pct_change (last hist) (Fin 0)) \<and>
         (day_ref hist = Fin 0 \<longrightarrow>
            field (list_under (get_stock_prices pf fetch) ''stocks'' ! k) ''change_1d_pct'' =
              Some (PNum (pct_change (last hist) (Fin 0))) \<and>
            field (get_exchange_rate (Inr hist)) ''change_1d_pct'' =
              Some (PNum (pct_change (last hist) (Fin 0)))) \<and>
         (week_ref hist = Fin 0 \<longrightarrow>
            field (list_under (get_stock_prices pf fetch) ''stocks'' ! k) ''change_1w_pct'' =
              Some (PNum (pct_change (last hist) (Fin 0))) \<and>
            field (get_exchange_rate (Inr hist)) ''change_1w_pct'' =
              Some (PNum (pct_change (last hist) (Fin 0)))) \<and>
         (month_ref hist = Fin 0 \<longrightarrow>
            field (list_under (get_stock_prices pf fetch) ''stocks'' ! k) ''change_1m_pct'' =
              Some (PNum (pct_change (last hist) (Fin 0))) \<and>
            field (get_exchange_rate (Inr hist)) ''change_1m_pct'' =
              Some (PNum (pct_change (last hist) (Fin 0))))"
proof -
  let ?r = "list_under (get_stock_prices pf fetch) ''stocks'' ! k"
  have r: "?r = PDict ([(''symbol'', PStr (symbol (pf_get pf ''stocks'' ! k))),
                        (''name'', PStr (name (pf_get pf ''stocks'' ! k))),
                        (''price'', PNum (fround2 (last hist)))] @ metrics hist)"
    using assms stock_step_series [of fetch "pf_get pf ''stocks'' ! k" hist]
    by (simp add: get_stock_prices_list)
  have x: "get_exchange_rate (Inr hist) =
      PDict ([(''pair'', PStr ''USD/KRW''), (''rate'', PNum (fround2 (last hist)))] @ metrics hist)"
    using assms(1) by (rule exchange_rate_series)
  have ks: "keys_of ?r = populated_keys"
    unfolding r by (simp only: keys_of.simps keys_with_metrics)
  have kx: "keys_of (get_exchange_rate (Inr hist)) =
      [''pair'', ''rate'', ''change_1d_pct'', ''change_1w_pct'', ''change_1m_pct'']"
    unfolding x by (simp add: metrics_def)
  have "last hist \<in> set hist" using assms(1) by simp
  then have "is_finite (last hist)" using assms(2) by (simp add: list_all_iff)
  then have nf: "\<not> is_finite (pct_change (last hist) (Fin 0))"
    by (rule pct_change_zero_reference)
  have d: "day_ref hist = Fin 0 \<Longrightarrow>
      field ?r ''change_1d_pct'' = Some (PNum (pct_change (last hist) (Fin 0))) \<and>
      field (get_exchange_rate (Inr hist)) ''change_1d_pct'' =
        Some (PNum (pct_change (last hist) (Fin 0)))"
    unfolding r x by (simp add: metrics_def)
  have w: "week_ref hist = Fin 0 \<Longrightarrow>
      field ?r ''change_1w_pct'' = Some (PNum (pct_change (last hist) (Fin 0))) \<and>
      field (get_exchange_rate (Inr hist)) ''change_1w_pct'' =
        Some (PNum (pct_change (last hist) (Fin 0)))"
    unfolding r x by (simp add: metrics_def)
  have m: "month_ref hist = Fin 0 \<Longrightarrow>
      field ?r ''change_1m_pct'' = Some (PNum (pct_change (last hist) (Fin 0))) \<and>
      field (get_exchange_rate (Inr hist)) ''change_1m_pct'' =
        Some (PNum (pct_change (last hist) (Fin 0)))"
    unfolding r x by (simp add: metrics_def)
  show ?thesis using ks kx nf d w m by blast
qed

theorem zero_reference_gives_nonfinite_change_witness:
  "[Fin 0, Fin 5, Fin 5] \<noteq> [] \<and> list_all is_finite [Fin 0, Fin 5, Fin 5] \<and>
   month_ref [Fin 0, Fin 5, Fin 5] = Fin 0 \<and>
   field (list_under (get_stock_prices example_portfolio (\<lambda>_. Inr [Fin 0, Fin 5, Fin 5]))
     ''stocks'' ! 0) ''change_1m_pct'' = Some (PNum PInf) \<and>
   field (get_exchange_rate (Inr [Fin 0, Fin 5, Fin 5])) ''change_1m_pct'' = Some (PNum PInf)"
  using zero_reference_gives_nonfinite_change [of "[Fin 0, Fin 5, Fin 5]" 0 example_portfolio
      "\<lambda>_. Inr [Fin 0, Fin 5, Fin 5]"] example_stocks
  by (simp add: month_ref_def pct_change_def)

text \<open>
  Claim C4 as stated fails: for the series 0, 5, 5 the 1-month reference is 0, the stock
  record is a populated one and not an error record, the exchange-rate record carries no
  error, and the 1-month change is infinite in both.
\<close>

theorem zero_reference_counterexample:
  "keys_of (list_under (get_stock_prices example_portfolio (\<lambda>_. Inr [Fin 0, Fin 5, Fin 5]))
     ''stocks'' ! 0) = populated_keys \<and>
   populated_keys \<noteq> error_keys \<and>
   field (list_under (get_stock_prices example_portfolio (\<lambda>_. Inr [Fin 0, Fin 5, Fin 5]))
     ''stocks'' ! 0) ''change_1m_pct'' = Some (PNum PInf) \<and>
   field (get_exchange_rate (Inr [Fin 0, Fin 5, Fin 5])) ''error'' = None \<and>
   field (get_exchange_rate (Inr [Fin 0, Fin 5, Fin 5])) ''change_1m_pct'' = Some (PNum PInf)"
  by (simp add: get_stock_prices_list example_stocks stock_step_series exchange_rate_series
      metrics_def month_ref_def pct_change_def populated_keys_def error_keys_def)

subsection \<open>The crypto loop\<close>

lemma crypto_step_absent:
  "map_of kvs (symbol c) = None \<Longrightarrow>
   crypto_step (PDict kvs) c =
     Inr (PDict [(''symbol'', PStr (symbol c)), (''error'', PStr msg_no_data)])"
  by (simp add: crypto_step_def map_of_eq_None_iff)

lemma round_number: "is_number v \<Longrightarrow> \<exists>r. py_round2 v = Inr r"
  by (cases v) simp_all

lemma crypto_step_present:
  assumes "map_of kvs (symbol c) = Some (PDict fs)" and "entry_ok (PDict fs)"
  shows "\<exists>r24 r7. crypto_step (PDict kvs) c =
     Inr (PDict [(''symbol'', PStr (symbol c)), (''name'', PStr (name c)),
                 (''price'', case map_of fs ''usd'' of None \<Rightarrow> PNum (Fin 0) | Some v \<Rightarrow> v),
                 (''change_24h_pct'', r24), (''change_7d_pct'', r7)]) \<and>
     py_round2 (case map_of fs ''usd_24h_change'' of None \<Rightarrow> PNum (Fin 0) | Some v \<Rightarrow> v) =
       Inr r24 \<and>
     py_round2 (case map_of fs ''usd_7d_change'' of None \<Rightarrow> PNum (Fin 0) | Some v \<Rightarrow> v) =
       Inr r7"
proof -
  have m: "symbol c \<in> fst ` set kvs"
    using assms(1) by (metis map_of_eq_None_iff option.distinct(1))
  obtain r24 where a:
    "py_round2 (case map_of fs ''usd_24h_change'' of None \<Rightarrow> PNum (Fin 0) | Some v \<Rightarrow> v) = Inr r24"
    using assms(2) round_number by fastforce
  obtain r7 where b:
    "py_round2 (case map_of fs ''usd_7d_change'' of None \<Rightarrow> PNum (Fin 0) | Some v \<Rightarrow> v) = Inr r7"
    using assms(2) round_number by fastforce
  show ?thesis
    using assms(1) m a b by (simp add: crypto_step_def)
qed

lemma crypto_step_ok:
  assumes "case map_of kvs (symbol c) of None \<Rightarrow> True | Some v \<Rightarrow> entry_ok v"
  shows "\<exists>r. crypto_step (PDict kvs) c = Inr r"
proof (cases "map_of kvs (symbol c)")
  case None
  then show ?thesis by (simp add: crypto_step_absent)
next
  case (Some v)
  then have "entry_ok v" using assms by simp
  then obtain fs where "v = PDict fs" by (cases v) simp_all
  then show ?thesis
    using Some \<open>entry_ok v\<close> crypto_step_present [of kvs c fs] by blast
qed

lemma crypto_loop_all_ok:
  "list_all (\<lambda>c. \<exists>r. crypto_step data c = Inr r) config \<Longrightarrow>
   crypto_loop data config acc = Inr (acc @ map (\<lambda>c. projr (crypto_step data c)) config)"
  by (induction config arbitrary: acc) auto

lemma crypto_loop_payload_ok:
  assumes "payload_ok kvs config"
  shows "crypto_loop (PDict kvs) config [] =
           Inr (map (\<lambda>c. projr (crypto_step (PDict kvs) c)) config)"
proof -
  have "list_all (\<lambda>c. \<exists>r. crypto_step (PDict kvs) c = Inr r) config"
    using assms crypto_step_ok by (simp add: payload_ok_def list_all_iff)
  then show ?thesis using crypto_loop_all_ok [of "PDict kvs" config "[]"] by simp
qed

lemma crypto_step_symbol:
  "crypto_step data c = Inr r \<Longrightarrow>
   field r ''symbol'' = Some (PStr (symbol c)) \<and>
   (keys_of r = crypto_populated_keys \<or> keys_of r = error_keys)"
  by (auto simp: crypto_step_def crypto_populated_keys_def error_keys_def
      split: sum.splits if_splits)

lemma crypto_loop_results:
  "crypto_loop data config acc = Inr rs \<Longrightarrow>
   \<exists>new. rs = acc @ new \<and> length new = length config \<and>
     map (\<lambda>r. field r ''symbol'') new = map (\<lambda>c. Some (PStr (symbol c))) config \<and>
     (\<forall>r \<in> set new. keys_of r = crypto_populated_keys \<or> keys_of r = error_keys)"
proof (induction config arbitrary: acc)
  case Nil
  then show ?case by simp
next
  case (Cons c config)
  from Cons.prems obtain r where r: "crypto_step data c = Inr r"
    and l: "crypto_loop data config (acc @ [r]) = Inr rs"
    by (auto split: sum.splits)
  from Cons.IH [OF l] obtain new where n: "rs = (acc @ [r]) @ new"
    "length new = length config"
    "map (\<lambda>r. field r ''symbol'') new = map (\<lambda>c. Some (PStr (symbol c))) config"
    "\<forall>r \<in> set new. keys_of r = crypto_populated_keys \<or> keys_of r = error_keys"
    by blast
  show ?case
    using n crypto_step_symbol [OF r] by (intro exI [of _ "r # new"]) simp
qed

lemma get_crypto_prices_payload_ok:
  assumes "pf_get pf ''crypto'' = config" and "config \<noteq> []"
    and "request (map symbol config) = Inr (PDict kvs)" and "payload_ok kvs config"
  shows "list_under (get_crypto_prices pf request) ''crypto'' =
           map (\<lambda>c. projr (crypto_step (PDict kvs) c)) config"
  using assms by (simp add: get_crypto_prices_def crypto_loop_payload_ok)

text \<open>
  Claim C7, amended. When the request succeeds with a JSON object in which the entry of
  every configured id, where there is one, is an object whose two change values are
  numbers where present, the list has one record per configured id in configuration
  order: the error record with the "no data" message for exactly the ids absent from the
  payload, a populated record for the ids present.
\<close>

theorem crypto_absent_ids_get_error_records:
  assumes "pf_get pf ''crypto'' = config" and "config \<noteq> []"
    and "request (map symbol config) = Inr (PDict kvs)" and "payload_ok kvs config"
    and "k < length config"
  shows "length (list_under (get_crypto_prices pf request) ''crypto'') = length config \<and>
         field (list_under (get_crypto_prices pf request) ''crypto'' ! k) ''symbol'' =
           Some (PStr (symbol (config ! k))) \<and>
         (map_of kvs (symbol (config ! k)) = None \<longrightarrow>
            list_under (get_crypto_prices pf request) ''crypto'' ! k =
              PDict [(''symbol'', PStr (symbol (config ! k))), (''error'', PStr msg_no_data)]) \<and>
         (map_of kvs (symbol (config ! k)) \<noteq> None \<longrightarrow>
            keys_of (list_under (get_crypto_prices pf request) ''crypto'' ! k) =
              crypto_populated_keys \<and>
            field (list_under (get_crypto_prices pf request) ''crypto'' ! k) ''name'' =
              Some (PStr (name (config ! k))))"
proof -
  let ?c = "config ! k"
  let ?r = "list_under (get_crypto_prices pf request) ''crypto'' ! k"
  have l: "list_under (get_crypto_prices pf request) ''crypto'' =
      map (\<lambda>c. projr (crypto_step (PDict kvs) c)) config"
    using assms(1-4) by (rule get_crypto_prices_payload_ok)
  have r: "?r = projr (crypto_step (PDict kvs) ?c)"
    using assms(5) by (simp add: l)
  have ok: "case map_of kvs (symbol ?c) of None \<Rightarrow> True | Some v \<Rightarrow> entry_ok v"
    using assms(4,5) by (simp add: payload_ok_def list_all_length)
  have absent: "map_of kvs (symbol ?c) = None \<Longrightarrow>
      ?r = PDict [(''symbol'', PStr (symbol ?c)), (''error'', PStr msg_no_data)]"
    by (simp add: r crypto_step_absent)
  have present: "keys_of ?r = crypto_populated_keys \<and>
      field ?r ''name'' = Some (PStr (name ?c)) \<and> field ?r ''symbol'' = Some (PStr (symbol ?c))"
    if "map_of kvs (symbol ?c) \<noteq> None"
  proof -
    from that obtain v where v: "map_of kvs (symbol ?c) = Some v" by blast
    then have "entry_ok v" using ok by simp
    then obtain fs where fs: "v = PDict fs" by (cases v) simp_all
    from crypto_step_present [of kvs ?c fs] v fs \<open>entry_ok v\<close>
    obtain r24 r7 where "crypto_step (PDict kvs) ?c =
        Inr (PDict [(''symbol'', PStr (symbol ?c)), (''name'', PStr (name ?c)),
                    (''price'', case map_of fs ''usd'' of None \<Rightarrow> PNum (Fin 0) | Some v \<Rightarrow> v),
                    (''change_24h_pct'', r24), (''change_7d_pct'', r7)])"
      by blast
    then show ?thesis by (simp add: r crypto_populated_keys_def)
  qed
  have sym: "field ?r ''symbol'' = Some (PStr (symbol ?c))"
    using absent present by (cases "map_of kvs (symbol ?c)") simp_all
  show ?thesis using l sym absent present by simp
qed

theorem crypto_absent_ids_get_error_records_witness:
  "pf_get example_portfolio ''crypto'' = [example_entry] \<and>
   payload_ok [(''BBB'', PDict [])] [example_entry] \<and>
   map_of [(''BBB'', PDict [])] (symbol example_entry) = None \<and>
   list_under (get_crypto_prices example_portfolio (\<lambda>_. Inr (PDict [(''BBB'', PDict [])])))
     ''crypto'' ! 0 = PDict [(''symbol'', PStr ''AAA''), (''error'', PStr msg_no_data)]"
  using crypto_absent_ids_get_error_records [of example_portfolio "[example_entry]"
      "\<lambda>_. Inr (PDict [(''BBB'', PDict [])])" "[(''BBB'', PDict [])]" 0] example_crypto
  by (simp add: payload_ok_def example_entry_def)

text \<open>
  Claim C7 as stated fails: the configured id is present in the payload, its 24 hour
  change is null, and the operation returns an empty list with a top-level error, so the
  id gets no populated record.
\<close>

theorem crypto_null_change_counterexample:
  "map_of [(''AAA'', PDict [(''usd'', PNum (Fin 5)), (''usd_24h_change'', PNone)])]
     (symbol example_entry) \<noteq> None \<and>
   get_crypto_prices example_portfolio
     (\<lambda>_. Inr (PDict [(''AAA'', PDict [(''usd'', PNum (Fin 5)), (''usd_24h_change'', PNone)])])) =
     PDict [(''crypto'', PList []), (''error'', PStr ''TypeError'')]"
  by (simp add: get_crypto_prices_def example_crypto crypto_step_def example_entry_def)

text \<open>
  Claim C9, amended. Under the same condition on the payload, a configured id whose
  entry has no \<open>usd\<close> field gets a populated record with price 0, and a change field is 0
  whenever its key is absent from the entry.
\<close>

theorem crypto_missing_usd_defaults_to_zero:
  assumes "pf_get pf ''crypto'' = config" and "config \<noteq> []"
    and "request (map symbol config) = Inr (PDict kvs)" and "payload_ok kvs config"
    and "k < length config"
    and "map_of kvs (symbol (config ! k)) = Some (PDict fs)" and "map_of fs ''usd'' = None"
  shows "keys_of (list_under (get_crypto_prices pf request) ''crypto'' ! k) =
           crypto_populated_keys \<and>
         field (list_under (get_crypto_prices pf request) ''crypto'' ! k) ''price'' =
           Some (PNum (Fin 0)) \<and>
         (map_of fs ''usd_24h_change'' = None \<longrightarrow>
            field (list_under (get_crypto_prices pf request) ''crypto'' ! k) ''change_24h_pct'' =
              Some (PNum (Fin 0))) \<and>
         (map_of fs ''usd_7d_change'' = None \<longrightarrow>
            field (list_under (get_crypto_prices pf request) ''crypto'' ! k) ''change_7d_pct'' =
              Some (PNum (Fin 0)))"
proof -
  let ?c = "config ! k"
  let ?r = "list_under (get_crypto_prices pf request) ''crypto'' ! k"
  have z: "round2 0 = 0" by (simp add: round2_def round_half_even_def)
  have l: "list_under (get_crypto_prices pf request) ''crypto'' =
      map (\<lambda>c. projr (crypto_step (PDict kvs) c)) config"
    using assms(1-4) by (rule get_crypto_prices_payload_ok)
  have r: "?r = projr (crypto_step (PDict kvs) ?c)"
    using assms(5) by (simp add: l)
  have "case map_of kvs (symbol ?c) of None \<Rightarrow> True | Some v \<Rightarrow> entry_ok v"
    using assms(4,5) by (simp add: payload_ok_def list_all_length)
  then have "entry_ok (PDict fs)"
    by (simp only: assms(6) option.case)
  from crypto_step_present [OF assms(6) this]
  obtain r24 r7 where s: "crypto_step (PDict kvs) ?c =
      Inr (PDict [(''symbol'', PStr (symbol ?c)), (''name'', PStr (name ?c)),
                  (''price'', case map_of fs ''usd'' of None \<Rightarrow> PNum (Fin 0) | Some v \<Rightarrow> v),
                  (''change_24h_pct'', r24), (''change_7d_pct'', r7)])"
    and a: "py_round2 (case map_of fs ''usd_24h_change'' of None \<Rightarrow> PNum (Fin 0) | Some v \<Rightarrow> v) =
      Inr r24"
    and b: "py_round2 (case map_of fs ''usd_7d_change'' of None \<Rightarrow> PNum (Fin 0) | Some v \<Rightarrow> v) =
      Inr r7"
    by blast
  have a0: "map_of fs ''usd_24h_change'' = None \<Longrightarrow> r24 = PNum (Fin 0)"
    using a by (simp add: z)
  have b0: "map_of fs ''usd_7d_change'' = None \<Longrightarrow> r7 = PNum (Fin 0)"
    using b by (simp add: z)
  show ?thesis
    using a0 b0 assms(7) by (simp add: r s crypto_populated_keys_def)
qed

theorem crypto_missing_usd_defaults_to_zero_witness:
  "pf_get example_portfolio ''crypto'' = [example_entry] \<and>
   payload_ok [(''AAA'', PDict [])] [example_entry] \<and>
   map_of [(''AAA'', PDict [])] (symbol example_entry) = Some (PDict []) \<and>
   field (list_under (get_crypto_prices example_portfolio (\<lambda>_. Inr (PDict [(''AAA'', PDict [])])))
     ''crypto'' ! 0) ''price'' = Some (PNum (Fin 0)) \<and>
   field (list_under (get_crypto_prices example_portfolio (\<lambda>_. Inr (PDict [(''AAA'', PDict [])])))
     ''crypto'' ! 0) ''change_7d_pct'' = Some (PNum (Fin 0))"
  using crypto_missing_usd_defaults_to_zero [of example_portfolio "[example_entry]"
      "\<lambda>_. Inr (PDict [(''AAA'', PDict [])])" "[(''AAA'', PDict [])]" 0 "[]"] example_crypto
  by (simp add: payload_ok_def example_entry_def)

text \<open>
  Claim C9 as stated fails: the entry of the configured id has no \<open>usd\<close> field, its 24
  hour change is null, and the operation returns an empty list with a top-level error
  instead of a populated record with price 0.
\<close>

theorem crypto_missing_usd_counterexample:
  "map_of [(''AAA'', PDict [(''usd_24h_change'', PNone)])] (symbol example_entry) =
     Some (PDict [(''usd_24h_change'', PNone)]) \<and>
   map_of [(''usd_24h_change'', PNone)] ''usd'' = None \<and>
   list_under (get_crypto_prices example_portfolio
     (\<lambda>_. Inr (PDict [(''AAA'', PDict [(''usd_24h_change'', PNone)])]))) ''crypto'' = []"
  by (simp add: get_crypto_prices_def example_crypto crypto_step_def example_entry_def)

subsection \<open>Shapes and lengths of the batch results\<close>

lemma stock_step_shape:
  "field (stock_step fetch i) ''symbol'' = Some (PStr (symbol i)) \<and>
   (keys_of (stock_step fetch i) = populated_keys \<or> keys_of (stock_step fetch i) = error_keys)"
proof (cases "fetch (symbol i)")
  case (Inl e)
  then show ?thesis by (simp add: stock_step_raise error_keys_def)
next
  case (Inr hist)
  show ?thesis
  proof (cases "hist = []")
    case True
    then show ?thesis using Inr by (simp add: stock_step_empty error_keys_def)
  next
    case False
    then show ?thesis
      using Inr stock_step_series [of fetch i hist]
      by (simp add: metrics_def populated_keys_def)
  qed
qed

lemma bond_step_shape:
  "field (bond_step fetch i) ''symbol'' = Some (PStr (symbol i)) \<and>
   (keys_of (bond_step fetch i) = populated_keys \<or> keys_of (bond_step fetch i) = error_keys)"
proof (cases "fetch (symbol i)")
  case (Inl e)
  then show ?thesis by (simp add: bond_step_raise error_keys_def)
next
  case (Inr hist)
  show ?thesis
  proof (cases "hist = []")
    case True
    then show ?thesis using Inr by (simp add: bond_step_empty error_keys_def)
  next
    case False
    then show ?thesis
      using Inr bond_step_series [of fetch i hist]
      by (simp add: metrics_def populated_keys_def)
  qed
qed

lemma gold_step_shape:
  "field (gold_step fetch i) ''symbol'' = Some (PStr (symbol i)) \<and>
   (keys_of (gold_step fetch i) = populated_keys \<or> keys_of (gold_step fetch i) = error_keys)"
proof (cases "fetch (symbol i)")
  case (Inl e)
  then show ?thesis by (simp add: gold_step_raise error_keys_def)
next
  case (Inr hist)
  show ?thesis
  proof (cases "hist = []")
    case True
    then show ?thesis using Inr by (simp add: gold_step_empty error_keys_def)
  next
    case False
    then show ?thesis
      using Inr gold_step_series [of fetch i hist]
      by (simp add: metrics_def populated_keys_def)
  qed
qed

lemma get_crypto_prices_cases:
  "(\<exists>rs. get_crypto_prices pf request = PDict [(''crypto'', PList rs)] \<and>
      length rs = length (pf_get pf ''crypto'') \<and>
      map (\<lambda>r. field r ''symbol'') rs =
        map (\<lambda>c. Some (PStr (symbol c))) (pf_get pf ''crypto'') \<and>
      (\<forall>r \<in> set rs. keys_of r = crypto_populated_keys \<or> keys_of r = error_keys)) \<or>
   (\<exists>e. get_crypto_prices pf request = PDict [(''crypto'', PList []), (''error'', PStr e)])"
proof (cases "pf_get pf ''crypto'' = []")
  case True
  then show ?thesis by (simp add: get_crypto_prices_def)
next
  case False
  show ?thesis
  proof (cases "request (map symbol (pf_get pf ''crypto''))")
    case (Inl e)
    then show ?thesis using False by (simp add: get_crypto_prices_def)
  next
    case (Inr data)
    show ?thesis
    proof (cases "crypto_loop data (pf_get pf ''crypto'') []")
      case (Inl e)
      then show ?thesis using False Inr by (simp add: get_crypto_prices_def)
    next
      case loop: (Inr rs)
      from crypto_loop_results [OF loop] show ?thesis
        using False Inr loop by (simp add: get_crypto_prices_def)
    qed
  qed
qed

text \<open>
  Claim C2, amended. The stock, bond and gold operations always return a list with one
  record per configured instrument in configuration order (so an empty configuration
  gives an empty list), and when every fetch fails the list consists of error records.
  The crypto operation returns the empty list for an empty configuration; when its
  request fails it returns an empty list together with a top-level \<open>error\<close>; whenever
  its result carries no top-level error the list has one record per configured id in
  configuration order. No operation raises.
\<close>

theorem batch_results_follow_configuration:
  "length (list_under (get_stock_prices pf fetch) ''stocks'') = length (pf_get pf ''stocks'') \<and>
   map (\<lambda>r. field r ''symbol'') (list_under (get_stock_prices pf fetch) ''stocks'') =
     map (\<lambda>i. Some (PStr (symbol i))) (pf_get pf ''stocks'') \<and>
   ((\<forall>i \<in> set (pf_get pf ''stocks''). \<exists>e. fetch (symbol i) = Inl e) \<longrightarrow>
      (\<forall>r \<in> set (list_under (get_stock_prices pf fetch) ''stocks''). keys_of r = error_keys)) \<and>
   length (list_under (get_bond_prices pf fetch) ''bonds'') = length (pf_get pf ''bonds'') \<and>
   map (\<lambda>r. field r ''symbol'') (list_under (get_bond_prices pf fetch) ''bonds'') =
     map (\<lambda>i. Some (PStr (symbol i))) (pf_get pf ''bonds'') \<and>
   ((\<forall>i \<in> set (pf_get pf ''bonds''). \<exists>e. fetch (symbol i) = Inl e) \<longrightarrow>
      (\<forall>r \<in> set (list_under (get_bond_prices pf fetch) ''bonds''). keys_of r = error_keys)) \<and>
   length (list_under (get_gold_prices pf fetch) ''gold'') = length (pf_get pf ''gold'') \<and>
   map (\<lambda>r. field r ''symbol'') (list_under (get_gold_prices pf fetch) ''gold'') =
     map (\<lambda>i. Some (PStr (symbol i))) (pf_get pf ''gold'') \<and>
   ((\<forall>i \<in> set (pf_get pf ''gold''). \<exists>e. fetch (symbol i) = Inl e) \<longrightarrow>
      (\<forall>r \<in> set (list_under (get_gold_prices pf fetch) ''gold''). keys_of r = error_keys)) \<and>
   (pf_get pf ''crypto'' = [] \<longrightarrow>
      get_crypto_prices pf request = PDict [(''crypto'', PList [])]) \<and>
   (\<forall>e. pf_get pf ''crypto'' \<noteq> [] \<and> request (map symbol (pf_get pf ''crypto'')) = Inl e \<longrightarrow>
      get_crypto_prices pf request = PDict [(''crypto'', PList []), (''error'', PStr e)]) \<and>
   (keys_of (get_crypto_prices pf request) = [''crypto''] \<or>
    keys_of (get_crypto_prices pf request) = [''crypto'', ''error'']) \<and>
   (keys_of (get_crypto_prices pf request) = [''crypto''] \<longrightarrow>
      length (list_under (get_crypto_prices pf request) ''crypto'') =
        length (pf_get pf ''crypto'') \<and>
      map (\<lambda>r. field r ''symbol'') (list_under (get_crypto_prices pf request) ''crypto'') =
        map (\<lambda>c. Some (PStr (symbol c))) (pf_get pf ''crypto''))"
proof -
  have s: "length (list_under (get_stock_prices pf fetch) ''stocks'') = length (pf_get pf ''stocks'') \<and>
   map (\<lambda>r. field r ''symbol'') (list_under (get_stock_prices pf fetch) ''stocks'') =
     map (\<lambda>i. Some (PStr (symbol i))) (pf_get pf ''stocks'') \<and>
   ((\<forall>i \<in> set (pf_get pf ''stocks''). \<exists>e. fetch (symbol i) = Inl e) \<longrightarrow>
      (\<forall>r \<in> set (list_under (get_stock_prices pf fetch) ''stocks''). keys_of r = error_keys))"
    by (auto simp: get_stock_prices_list stock_step_shape stock_step_raise error_keys_def)
  have b: "length (list_under (get_bond_prices pf fetch) ''bonds'') = length (pf_get pf ''bonds'') \<and>
   map (\<lambda>r. field r ''symbol'') (list_under (get_bond_prices pf fetch) ''bonds'') =
     map (\<lambda>i. Some (PStr (symbol i))) (pf_get pf ''bonds'') \<and>
   ((\<forall>i \<in> set (pf_get pf ''bonds''). \<exists>e. fetch (symbol i) = Inl e) \<longrightarrow>
      (\<forall>r \<in> set (list_under (get_bond_prices pf fetch) ''bonds''). keys_of r = error_keys))"
    by (auto simp: get_bond_prices_list bond_step_shape bond_step_raise error_keys_def)
  have g: "length (list_under (get_gold_prices pf fetch) ''gold'') = length (pf_get pf ''gold'') \<and>
   map (\<lambda>r. field r ''symbol'') (list_under (get_gold_prices pf fetch) ''gold'') =
     map (\<lambda>i. Some (PStr (symbol i))) (pf_get pf ''gold'') \<and>
   ((\<forall>i \<in> set (pf_get pf ''gold''). \<exists>e. fetch (symbol i) = Inl e) \<longrightarrow>
      (\<forall>r \<in> set (list_under (get_gold_prices pf fetch) ''gold''). keys_of r = error_keys))"
    by (auto simp: get_gold_prices_list gold_step_shape gold_step_raise error_keys_def)
  have c0: "pf_get pf ''crypto'' = [] \<longrightarrow>
      get_crypto_prices pf request = PDict [(''crypto'', PList [])]"
    by (simp add: get_crypto_prices_def)
  have ce: "\<forall>e. pf_get pf ''crypto'' \<noteq> [] \<and>
      request (map symbol (pf_get pf ''crypto'')) = Inl e \<longrightarrow>
      get_crypto_prices pf request = PDict [(''crypto'', PList []), (''error'', PStr e)]"
    by (simp add: get_crypto_prices_def)
  have ck: "(keys_of (get_crypto_prices pf request) = [''crypto''] \<or>
      keys_of (get_crypto_prices pf request) = [''crypto'', ''error'']) \<and>
     (keys_of (get_crypto_prices pf request) = [''crypto''] \<longrightarrow>
      length (list_under (get_crypto_prices pf request) ''crypto'') =
        length (pf_get pf ''crypto'') \<and>
      map (\<lambda>r. field r ''symbol'') (list_under (get_crypto_prices pf request) ''crypto'') =
        map (\<lambda>c. Some (PStr (symbol c))) (pf_get pf ''crypto''))"
    using get_crypto_prices_cases [of pf request] by auto
  show ?thesis using s b g c0 ce ck by blast
qed

theorem batch_results_follow_configuration_witness:
  "pf_get example_portfolio ''stocks'' = [example_entry] \<and>
   list_under (get_stock_prices example_portfolio (\<lambda>_. Inl ''down'')) ''stocks'' =
     [PDict [(''symbol'', PStr ''AAA''), (''error'', PStr ''down'')]] \<and>
   map keys_of (list_under (get_stock_prices example_portfolio (\<lambda>_. Inl ''down'')) ''stocks'') =
     [error_keys] \<and>
   pf_get example_portfolio ''crypto'' \<noteq> [] \<and>
   get_crypto_prices example_portfolio (\<lambda>_. Inl ''down'') =
     PDict [(''crypto'', PList []), (''error'', PStr ''down'')]"
  using batch_results_follow_configuration [of example_portfolio "\<lambda>_. Inl ''down''"
      "\<lambda>_. Inl ''down''"] example_stocks example_crypto
  by (simp add: get_stock_prices_list stock_step_raise example_entry_def error_keys_def)

text \<open>
  Claim C2 as stated fails for the crypto operation: with one configured id and a failing
  request the list is empty, not a list of one error record.
\<close>

theorem crypto_outage_counterexample:
  "length (pf_get example_portfolio ''crypto'') = 1 \<and>
   length (list_under (get_crypto_prices example_portfolio (\<lambda>_. Inl ''down'')) ''crypto'') = 0 \<and>
   field (get_crypto_prices example_portfolio (\<lambda>_. Inl ''down'')) ''error'' =
     Some (PStr ''down'')"
  by (simp add: get_crypto_prices_def example_crypto)

text \<open>
  Claim C3, amended. Every element of a stock, bond or gold result list has exactly one
  of two shapes, the populated record with the three change fields or the error record.
  Every element of a crypto result list is the error record or a populated record of
  its own shape: symbol, name, price, change_24h_pct, change_7d_pct. The three shapes are
  different from one another.
\<close>

theorem result_elements_have_one_shape:
  "(\<forall>r \<in> set (list_under (get_stock_prices pf fetch) ''stocks'').
      keys_of r = populated_keys \<or> keys_of r = error_keys) \<and>
   (\<forall>r \<in> set (list_under (get_bond_prices pf fetch) ''bonds'').
      keys_of r = populated_keys \<or> keys_of r = error_keys) \<and>
   (\<forall>r \<in> set (list_under (get_gold_prices pf fetch) ''gold'').
      keys_of r = populated_keys \<or> keys_of r = error_keys) \<and>
   (\<forall>r \<in> set (list_under (get_crypto_prices pf request) ''crypto'').
      keys_of r = crypto_populated_keys \<or> keys_of r = error_keys) \<and>
   distinct [populated_keys, error_keys, crypto_populated_keys]"
proof -
  have s: "(\<forall>r \<in> set (list_under (get_stock_prices pf fetch) ''stocks'').
      keys_of r = populated_keys \<or> keys_of r = error_keys)"
    by (auto simp: get_stock_prices_list stock_step_shape)
  have b: "(\<forall>r \<in> set (list_under (get_bond_prices pf fetch) ''bonds'').
      keys_of r = populated_keys \<or> keys_of r = error_keys)"
    by (auto simp: get_bond_prices_list bond_step_shape)
  have g: "(\<forall>r \<in> set (list_under (get_gold_prices pf fetch) ''gold'').
      keys_of r = populated_keys \<or> keys_of r = error_keys)"
    by (auto simp: get_gold_prices_list gold_step_shape)
  have c: "\<forall>r \<in> set (list_under (get_crypto_prices pf request) ''crypto'').
      keys_of r = crypto_populated_keys \<or> keys_of r = error_keys"
    using get_crypto_prices_cases [of pf request] by auto
  have d: "distinct [populated_keys, error_keys, crypto_populated_keys]"
    by (simp add: populated_keys_def error_keys_def crypto_populated_keys_def)
  show ?thesis using s b g c d by blast
qed

theorem result_elements_have_one_shape_witness:
  "map keys_of (list_under (get_stock_prices example_portfolio (\<lambda>_. Inr series_6)) ''stocks'') =
     [populated_keys] \<and>
   populated_keys \<noteq> error_keys"
proof -
  have ne: "series_6 \<noteq> []" by (simp add: series_6_def)
  have k: "keys_of (stock_step (\<lambda>_. Inr series_6) example_entry) = populated_keys"
    using ne by (simp add: stock_step_series metrics_def populated_keys_def)
  show ?thesis
    using result_elements_have_one_shape [of example_portfolio "\<lambda>_. Inr series_6"
        "\<lambda>_. Inl ''down''"] k
    by (simp add: get_stock_prices_list example_stocks)
qed

text \<open>
  Claim C3 as stated fails for the crypto operation: a populated crypto record has
  neither of the two shapes of the claim.
\<close>

theorem crypto_shape_counterexample:
  "keys_of (list_under (get_crypto_prices example_portfolio
     (\<lambda>_. Inr (PDict [(''AAA'', PDict [(''usd'', PNum (Fin 5))])]))) ''crypto'' ! 0) =
     [''symbol'', ''name'', ''price'', ''change_24h_pct'', ''change_7d_pct''] \<and>
   keys_of (list_under (get_crypto_prices example_portfolio
     (\<lambda>_. Inr (PDict [(''AAA'', PDict [(''usd'', PNum (Fin 5))])]))) ''crypto'' ! 0) \<noteq>
     populated_keys \<and>
   keys_of (list_under (get_crypto_prices example_portfolio
     (\<lambda>_. Inr (PDict [(''AAA'', PDict [(''usd'', PNum (Fin 5))])]))) ''crypto'' ! 0) \<noteq>
     error_keys"
  by (simp add: get_crypto_prices_def example_crypto crypto_step_def example_entry_def
      populated_keys_def error_keys_def round2_def round_half_even_def)

end
